theory Spec2Isabelle
  imports Complex_Main
begin

section \<open>The blue and white calculator: the safe arithmetic evaluator\<close>

text \<open>
  The repository is one Python 3 file, \<^verbatim>\<open>blue_white_calculator.py\<close>. Its evaluator is
  \<^verbatim>\<open>safe_eval\<close>: it normalises the text of the display, hands it to Python's own parser
  (\<^verbatim>\<open>ast.parse(..., mode='eval')\<close>) and walks the syntax tree with \<^verbatim>\<open>_eval_ast\<close>, which
  applies the functions of the \<^verbatim>\<open>operator\<close> module. The window's compute action
  \<^verbatim>\<open>Calculator._calculate\<close> shows the result or the word Error.

  The three functions of the file are embedded below as \<open>eval_ast\<close>, \<open>safe_eval\<close> and
  \<open>calculate\<close> (a leading underscore is not an Isabelle name). What they call in Python
  itself, namely the text operations, the parser and the arithmetic of \<^verbatim>\<open>int\<close>,
  \<^verbatim>\<open>bool\<close>, \<^verbatim>\<open>float\<close> and \<^verbatim>\<open>complex\<close>, is modelled as Python 3.8 to 3.13 defines it. Where
  the outcome depends on something this theory does not compute (the C library's power
  function, the value of a complex number, the shortest decimal form of a float, syntax
  outside arithmetic, calls and tuples) the model answers \<open>Unmodelled\<close> instead of guessing.
  Limits on resources (recursion depth, memory, the length of an integer's decimal form)
  are not modelled.
\<close>

subsection \<open>Text\<close>

text \<open>
  A Python \<^verbatim>\<open>str\<close> is a sequence of Unicode code points. Isabelle's \<open>char\<close> is a byte,
  and the minus sign the calculator's button inserts is U+2212, so a text is a list of code
  points; \<open>ustr\<close> reads an ASCII literal.
\<close>

type_synonym pystr = "nat list"

definition ustr :: "string \<Rightarrow> pystr" where
  "ustr s = map of_char s"

text \<open>\<^verbatim>\<open>s.replace(old, new)\<close> for a pattern \<open>old\<close> of one character, as all four calls in
  \<^verbatim>\<open>safe_eval\<close> have it.\<close>

definition str_replace :: "nat \<Rightarrow> pystr \<Rightarrow> pystr \<Rightarrow> pystr" where
  "str_replace old new s = concat (map (\<lambda>c. if c = old then new else [c]) s)"

text \<open>\<^verbatim>\<open>str.isspace\<close> on one character: the code points Python counts as whitespace, which
  are the ones \<^verbatim>\<open>str.split()\<close> splits at.\<close>

definition isspace :: "nat \<Rightarrow> bool" where
  "isspace c = ((9 \<le> c \<and> c \<le> 13) \<or> (28 \<le> c \<and> c \<le> 32) \<or> c = 133 \<or> c = 160 \<or> c = 5760
      \<or> (8192 \<le> c \<and> c \<le> 8202) \<or> c = 8232 \<or> c = 8233 \<or> c = 8239 \<or> c = 8287 \<or> c = 12288)"

text \<open>\<^verbatim>\<open>''.join(s.split())\<close>: the pieces between runs of whitespace, glued together again,
  which is the text without its whitespace.\<close>

definition remove_whitespace :: "pystr \<Rightarrow> pystr" where
  "remove_whitespace s = filter (\<lambda>c. \<not> isspace c) s"

definition isdigit :: "nat \<Rightarrow> bool" where
  "isdigit c = (48 \<le> c \<and> c \<le> 57)"

definition isidentstart :: "nat \<Rightarrow> bool" where
  "isidentstart c = ((65 \<le> c \<and> c \<le> 90) \<or> (97 \<le> c \<and> c \<le> 122) \<or> c = 95)"

definition isidentchar :: "nat \<Rightarrow> bool" where
  "isidentchar c = (isidentstart c \<or> isdigit c)"

text \<open>The value of a run of decimal digits, and \<^verbatim>\<open>str(n)\<close> for an integer.\<close>

definition digits_value :: "pystr \<Rightarrow> nat" where
  "digits_value ds = foldl (\<lambda>acc c. 10 * acc + (c - 48)) 0 ds"

fun str_nat :: "nat \<Rightarrow> pystr" where
  "str_nat n = (if n < 10 then [48 + n] else str_nat (n div 10) @ [48 + n mod 10])"

declare str_nat.simps [simp del]

definition str_int :: "int \<Rightarrow> pystr" where
  "str_int i = (if i < 0 then 45 # str_nat (nat (- i)) else str_nat (nat i))"

subsection \<open>Outcomes\<close>

text \<open>
  The exceptions that the evaluator's code and the Python operations under it raise here.
  \<^verbatim>\<open>ZeroDivisionError\<close> and \<^verbatim>\<open>OverflowError\<close> are Python's \<^verbatim>\<open>ArithmeticError\<close>s.
\<close>

datatype error = SyntaxError | ValueError | ZeroDivisionError | OverflowError | TypeError

definition arithmetic_error :: "error \<Rightarrow> bool" where
  "arithmetic_error e = (e = ZeroDivisionError \<or> e = OverflowError)"

text \<open>A call returns a value, raises, or is outside what this theory computes.\<close>

datatype 'a outcome = Returns 'a | Raises error | Unmodelled

subsection \<open>Floats\<close>

text \<open>
  A Python \<^verbatim>\<open>float\<close> is an IEEE 754 binary64 number. A finite one is \<open>m * 2 ^ e\<close> for integers
  \<open>m\<close> and \<open>e\<close>; it is kept in lowest terms (\<open>m\<close> odd, or both zero), so that equal floats are
  equal terms. The sign of zero is not kept: it never changes which value or error an
  operation of the calculator gives, only the sign of a zero result.
\<close>

datatype pyfloat = Finite int int | PosInf | NegInf | NaN

definition pow2 :: "int \<Rightarrow> rat" where
  "pow2 k = (if 0 \<le> k then 2 ^ nat k else 1 / 2 ^ nat (- k))"

fun float_value :: "pyfloat \<Rightarrow> rat option" where
  "float_value (Finite m e) = Some (of_int m * pow2 e)"
| "float_value _ = None"

text \<open>\<^verbatim>\<open>int.bit_length\<close>.\<close>

fun bit_length :: "nat \<Rightarrow> nat" where
  "bit_length n = (if n = 0 then 0 else Suc (bit_length (n div 2)))"

declare bit_length.simps [simp del]

fun lowest_terms :: "nat \<Rightarrow> int \<Rightarrow> nat \<times> int" where
  "lowest_terms m e = (if m = 0 then (0, 0) else if even m then lowest_terms (m div 2) (e + 1) else (m, e))"

declare lowest_terms.simps [simp del]

text \<open>
  \<open>round_ratio a b\<close> is the double nearest to \<open>a / b\<close> (for \<open>0 < b\<close>), ties to even, as
  binary64 arithmetic, \<^verbatim>\<open>float(str)\<close> and the true division of integers round: \<open>e\<close> is the
  exponent of \<open>a / b\<close>, \<open>p\<close> the exponent of the last place of its 53 bits (of a subnormal
  below \<open>2 ^ - 1022\<close>), \<open>m\<close> the quotient rounded at that place.
\<close>

definition floor_log2_from :: "int \<Rightarrow> nat \<Rightarrow> nat \<Rightarrow> int" where
  "floor_log2_from d n b =
     (if (if 0 \<le> d then b * 2 ^ nat d \<le> n else b \<le> n * 2 ^ nat (- d)) then d else d - 1)"

definition floor_log2 :: "nat \<Rightarrow> nat \<Rightarrow> int" where
  "floor_log2 n b = floor_log2_from (int (bit_length n) - int (bit_length b)) n b"

definition round_half_even_qr :: "nat \<Rightarrow> nat \<Rightarrow> nat \<Rightarrow> nat" where
  "round_half_even_qr q r den =
     (if 2 * r < den then q else if den < 2 * r then q + 1 else if even q then q else q + 1)"

definition round_half_even :: "nat \<Rightarrow> nat \<Rightarrow> nat" where
  "round_half_even num den = round_half_even_qr (num div den) (num mod den) den"

definition round_at :: "nat \<Rightarrow> nat \<Rightarrow> int \<Rightarrow> nat" where
  "round_at n d p =
     (if 0 \<le> p then round_half_even n (d * 2 ^ nat p) else round_half_even (n * 2 ^ nat (- p)) d)"

definition make_float :: "int \<Rightarrow> nat \<times> int \<Rightarrow> pyfloat" where
  "make_float s me = Finite (s * int (fst me)) (snd me)"

definition pack_float :: "int \<Rightarrow> nat \<Rightarrow> int \<Rightarrow> pyfloat" where
  "pack_float s m p =
     (if 1024 < int (bit_length m) + p then (if 0 < s then PosInf else NegInf)
      else make_float s (lowest_terms m p))"

definition round_place :: "int \<Rightarrow> int \<Rightarrow> int \<Rightarrow> pyfloat" where
  "round_place a b p = pack_float (sgn a) (round_at (nat \<bar>a\<bar>) (nat b) p) p"

definition round_ratio :: "int \<Rightarrow> int \<Rightarrow> pyfloat" where
  "round_ratio a b =
     (if a = 0 then Finite 0 0
      else round_place a b (max (floor_log2 (nat \<bar>a\<bar>) (nat b) - 52) (- 1074)))"

text \<open>The double nearest to \<open>m * 2 ^ e\<close>.\<close>

definition round_dyadic :: "int \<Rightarrow> int \<Rightarrow> pyfloat" where
  "round_dyadic m e = (if 0 \<le> e then round_ratio (m * 2 ^ nat e) 1 else round_ratio m (2 ^ nat (- e)))"

subsection \<open>Numbers and their arithmetic\<close>

text \<open>
  The values the evaluator can return: an \<^verbatim>\<open>int\<close> (unbounded), a \<^verbatim>\<open>bool\<close> (in Python a
  subclass of \<^verbatim>\<open>int\<close>), a \<^verbatim>\<open>float\<close>, or a \<^verbatim>\<open>complex\<close>, which only a power can produce
  and whose two components are not kept.
\<close>

datatype pyval = PyInt int | PyBool bool | PyFloat pyfloat | PyComplex

fun as_int :: "pyval \<Rightarrow> int option" where
  "as_int (PyInt n) = Some n"
| "as_int (PyBool b) = Some (if b then 1 else 0)"
| "as_int (PyFloat f) = None"
| "as_int PyComplex = None"

fun is_complex :: "pyval \<Rightarrow> bool" where
  "is_complex PyComplex = True"
| "is_complex _ = False"

text \<open>\<^verbatim>\<open>PyLong_AsDouble\<close>: an integer as a float, or \<^verbatim>\<open>OverflowError\<close> (int too large to
  convert to float).\<close>

definition int_to_float :: "int \<Rightarrow> pyfloat outcome" where
  "int_to_float n = (case round_ratio n 1 of Finite m e \<Rightarrow> Returns (Finite m e) | _ \<Rightarrow> Raises OverflowError)"

fun as_float :: "pyval \<Rightarrow> pyfloat outcome" where
  "as_float (PyFloat f) = Returns f"
| "as_float (PyInt n) = int_to_float n"
| "as_float (PyBool b) = Returns (Finite (if b then 1 else 0) 0)"
| "as_float PyComplex = Unmodelled"

text \<open>
  How Python's binary arithmetic picks its implementation: two integers (booleans among
  them) use \<^verbatim>\<open>int\<close>'s; a complex operand makes it \<^verbatim>\<open>complex\<close>'s; otherwise both operands
  become floats, the left one first, and \<^verbatim>\<open>float\<close>'s is used.
\<close>

definition float_operands :: "(pyfloat \<Rightarrow> pyfloat \<Rightarrow> pyval outcome) \<Rightarrow> pyval \<Rightarrow> pyval \<Rightarrow> pyval outcome" where
  "float_operands ff a b =
     (case as_float a of
        Returns x \<Rightarrow> (case as_float b of Returns y \<Rightarrow> ff x y | Raises e \<Rightarrow> Raises e | Unmodelled \<Rightarrow> Unmodelled)
      | Raises e \<Rightarrow> Raises e
      | Unmodelled \<Rightarrow> Unmodelled)"

definition arith :: "(int \<Rightarrow> int \<Rightarrow> pyval outcome) \<Rightarrow> (pyfloat \<Rightarrow> pyfloat \<Rightarrow> pyval outcome) \<Rightarrow>
    (pyval \<Rightarrow> pyval \<Rightarrow> pyval outcome) \<Rightarrow> pyval \<Rightarrow> pyval \<Rightarrow> pyval outcome" where
  "arith fi ff fc a b =
     (case as_int a of
        Some m \<Rightarrow> (case as_int b of
                     Some n \<Rightarrow> fi m n
                   | None \<Rightarrow> if is_complex b then fc a b else float_operands ff a b)
      | None \<Rightarrow> if is_complex a \<or> is_complex b then fc a b else float_operands ff a b)"

text \<open>Float addition, subtraction and multiplication: the exact result, rounded; beyond
  the range it is an infinity, not an error. An infinite or NaN operand is not modelled.\<close>

definition add_dyadic :: "int \<Rightarrow> int \<Rightarrow> int \<Rightarrow> int \<Rightarrow> pyfloat" where
  "add_dyadic m1 e1 m2 e2 =
     round_dyadic (m1 * 2 ^ nat (e1 - min e1 e2) + m2 * 2 ^ nat (e2 - min e1 e2)) (min e1 e2)"

fun float_add :: "pyfloat \<Rightarrow> pyfloat \<Rightarrow> pyval outcome" where
  "float_add (Finite m1 e1) (Finite m2 e2) = Returns (PyFloat (add_dyadic m1 e1 m2 e2))"
| "float_add _ _ = Unmodelled"

fun float_sub :: "pyfloat \<Rightarrow> pyfloat \<Rightarrow> pyval outcome" where
  "float_sub (Finite m1 e1) (Finite m2 e2) = Returns (PyFloat (add_dyadic m1 e1 (- m2) e2))"
| "float_sub _ _ = Unmodelled"

fun float_mul :: "pyfloat \<Rightarrow> pyfloat \<Rightarrow> pyval outcome" where
  "float_mul (Finite m1 e1) (Finite m2 e2) = Returns (PyFloat (round_dyadic (m1 * m2) (e1 + e2)))"
| "float_mul _ _ = Unmodelled"

text \<open>
  \<^verbatim>\<open>float_div\<close> and \<^verbatim>\<open>float_rem\<close> of CPython test the divisor for zero before anything
  else. The remainder is C's \<^verbatim>\<open>fmod\<close> (exact), moved by one divisor when its sign is not the
  divisor's: the floor remainder, rounded.
\<close>

fun float_is_zero :: "pyfloat \<Rightarrow> bool" where
  "float_is_zero (Finite m e) = (m = 0)"
| "float_is_zero _ = False"

fun float_div :: "pyfloat \<Rightarrow> pyfloat \<Rightarrow> pyval outcome" where
  "float_div x (Finite m2 e2) =
     (if m2 = 0 then Raises ZeroDivisionError
      else (case x of
              Finite m1 e1 \<Rightarrow>
                Returns (PyFloat (round_ratio (sgn m2 * m1 * 2 ^ nat (e1 - e2)) (\<bar>m2\<bar> * 2 ^ nat (e2 - e1))))
            | _ \<Rightarrow> Unmodelled))"
| "float_div x _ = Unmodelled"

fun float_mod :: "pyfloat \<Rightarrow> pyfloat \<Rightarrow> pyval outcome" where
  "float_mod x (Finite m2 e2) =
     (if m2 = 0 then Raises ZeroDivisionError
      else (case x of
              Finite m1 e1 \<Rightarrow>
                Returns (PyFloat (round_dyadic
                  ((m1 * 2 ^ nat (e1 - min e1 e2)) mod (m2 * 2 ^ nat (e2 - min e1 e2))) (min e1 e2)))
            | _ \<Rightarrow> Unmodelled))"
| "float_mod x _ = Unmodelled"

text \<open>
  \<^verbatim>\<open>float_pow\<close> of CPython, for finite operands \<open>x = m1 * 2 ^ e1\<close> and \<open>y = m2 * 2 ^ e2\<close>, in
  its order: \<open>x ** 0\<close> is 1; zero to a negative power raises; a negative number to a power
  that is not an integer is handed to \<^verbatim>\<open>complex\<close>'s power; everything else is the C
  library's \<^verbatim>\<open>pow\<close>. That function is not exact in general, so its result is modelled only
  where the exponent is an integer and the exact power is itself a double, which any
  \<^verbatim>\<open>pow\<close> with an error below one unit in the last place returns. The complex power
  raises \<^verbatim>\<open>OverflowError\<close> when a component overflows; it is modelled as returning a complex
  number where the size of the operands rules that out.
\<close>

definition dyadic :: "int \<Rightarrow> int \<Rightarrow> rat" where
  "dyadic m e = of_int m * pow2 e"

definition pow_in_range :: "int \<Rightarrow> int \<Rightarrow> int \<Rightarrow> int \<Rightarrow> bool" where
  "pow_in_range m1 e1 m2 e2 =
     (1 / 65536 \<le> \<bar>dyadic m1 e1\<bar> \<and> \<bar>dyadic m1 e1\<bar> \<le> 65536 \<and> \<bar>dyadic m2 e2\<bar> \<le> 16)"

definition is_exact :: "pyfloat \<Rightarrow> int \<Rightarrow> int \<Rightarrow> bool" where
  "is_exact f a b = (case f of
       Finite m e \<Rightarrow> (if 0 \<le> e then m * 2 ^ nat e * b = a else m * b = a * 2 ^ nat (- e))
     | _ \<Rightarrow> False)"

definition exact_ratio :: "int \<Rightarrow> int \<Rightarrow> pyval outcome" where
  "exact_ratio a b = (if is_exact (round_ratio a b) a b then Returns (PyFloat (round_ratio a b)) else Unmodelled)"

definition pow_integer :: "int \<Rightarrow> int \<Rightarrow> int \<Rightarrow> pyval outcome" where
  "pow_integer m1 e1 k =
     (if 0 \<le> k then exact_ratio (m1 ^ nat k * 2 ^ nat (e1 * k)) (2 ^ nat (- (e1 * k)))
      else exact_ratio (sgn m1 ^ nat (- k) * 2 ^ nat (e1 * k)) (\<bar>m1\<bar> ^ nat (- k) * 2 ^ nat (- (e1 * k))))"

fun float_pow :: "pyfloat \<Rightarrow> pyfloat \<Rightarrow> pyval outcome" where
  "float_pow (Finite m1 e1) (Finite m2 e2) =
     (if m2 = 0 then Returns (PyFloat (Finite 1 0))
      else if m1 = 0 then (if m2 < 0 then Raises ZeroDivisionError else Returns (PyFloat (Finite 0 0)))
      else if m1 < 0 \<and> e2 < 0 then (if pow_in_range m1 e1 m2 e2 then Returns PyComplex else Unmodelled)
      else if 0 \<le> e2 then pow_integer m1 e1 (m2 * 2 ^ nat e2)
      else Unmodelled)"
| "float_pow _ _ = Unmodelled"

text \<open>The operations of \<^verbatim>\<open>int\<close>. True division gives the float nearest to the quotient;
  a negative exponent sends the power to \<^verbatim>\<open>float_pow\<close>.\<close>

definition int_truediv :: "int \<Rightarrow> int \<Rightarrow> pyval outcome" where
  "int_truediv m n =
     (if n = 0 then Raises ZeroDivisionError
      else (case round_ratio (sgn n * m) \<bar>n\<bar> of
              Finite a e \<Rightarrow> Returns (PyFloat (Finite a e))
            | _ \<Rightarrow> Raises OverflowError))"

definition int_mod :: "int \<Rightarrow> int \<Rightarrow> pyval outcome" where
  "int_mod m n = (if n = 0 then Raises ZeroDivisionError else Returns (PyInt (m mod n)))"

definition int_pow :: "int \<Rightarrow> int \<Rightarrow> pyval outcome" where
  "int_pow m n =
     (if 0 \<le> n then Returns (PyInt (m ^ nat n))
      else float_operands float_pow (PyInt m) (PyInt n))"

text \<open>
  The operations of \<^verbatim>\<open>complex\<close>, as far as they do not depend on the number's value:
  the other operand is converted first (a huge integer overflows); addition, subtraction
  and multiplication then return a complex number; division by a real zero raises; the
  remainder is not defined for complex numbers at all.
\<close>

definition real_operand :: "pyval \<Rightarrow> unit outcome" where
  "real_operand v = (if is_complex v then Returns ()
     else (case as_float v of Returns f \<Rightarrow> Returns () | Raises e \<Rightarrow> Raises e | Unmodelled \<Rightarrow> Unmodelled))"

definition complex_operands :: "pyval outcome \<Rightarrow> pyval \<Rightarrow> pyval \<Rightarrow> pyval outcome" where
  "complex_operands r a b =
     (case real_operand a of
        Returns u \<Rightarrow> (case real_operand b of Returns u' \<Rightarrow> r | Raises e \<Rightarrow> Raises e | Unmodelled \<Rightarrow> Unmodelled)
      | Raises e \<Rightarrow> Raises e
      | Unmodelled \<Rightarrow> Unmodelled)"

definition complex_arith :: "pyval \<Rightarrow> pyval \<Rightarrow> pyval outcome" where
  "complex_arith a b = complex_operands (Returns PyComplex) a b"

fun is_zero :: "pyval \<Rightarrow> bool" where
  "is_zero (PyInt n) = (n = 0)"
| "is_zero (PyBool b) = (\<not> b)"
| "is_zero (PyFloat f) = float_is_zero f"
| "is_zero PyComplex = False"

definition complex_div :: "pyval \<Rightarrow> pyval \<Rightarrow> pyval outcome" where
  "complex_div a b =
     (if is_complex b then complex_operands Unmodelled a b
      else complex_operands (if is_zero b then Raises ZeroDivisionError else Returns PyComplex) a b)"

definition complex_mod :: "pyval \<Rightarrow> pyval \<Rightarrow> pyval outcome" where
  "complex_mod a b = Raises TypeError"

definition complex_pow :: "pyval \<Rightarrow> pyval \<Rightarrow> pyval outcome" where
  "complex_pow a b = Unmodelled"

text \<open>The functions of the \<^verbatim>\<open>operator\<close> module that the evaluator's two tables hold.\<close>

definition op_add :: "pyval \<Rightarrow> pyval \<Rightarrow> pyval outcome" where
  "op_add = arith (\<lambda>m n. Returns (PyInt (m + n))) float_add complex_arith"

definition op_sub :: "pyval \<Rightarrow> pyval \<Rightarrow> pyval outcome" where
  "op_sub = arith (\<lambda>m n. Returns (PyInt (m - n))) float_sub complex_arith"

definition op_mul :: "pyval \<Rightarrow> pyval \<Rightarrow> pyval outcome" where
  "op_mul = arith (\<lambda>m n. Returns (PyInt (m * n))) float_mul complex_arith"

definition op_truediv :: "pyval \<Rightarrow> pyval \<Rightarrow> pyval outcome" where
  "op_truediv = arith int_truediv float_div complex_div"

definition op_mod :: "pyval \<Rightarrow> pyval \<Rightarrow> pyval outcome" where
  "op_mod = arith int_mod float_mod complex_mod"

definition op_pow :: "pyval \<Rightarrow> pyval \<Rightarrow> pyval outcome" where
  "op_pow = arith int_pow float_pow complex_pow"

fun float_neg :: "pyfloat \<Rightarrow> pyfloat" where
  "float_neg (Finite m e) = Finite (- m) e"
| "float_neg PosInf = NegInf"
| "float_neg NegInf = PosInf"
| "float_neg NaN = NaN"

fun op_pos :: "pyval \<Rightarrow> pyval outcome" where
  "op_pos (PyInt n) = Returns (PyInt n)"
| "op_pos (PyBool b) = Returns (PyInt (if b then 1 else 0))"
| "op_pos (PyFloat f) = Returns (PyFloat f)"
| "op_pos PyComplex = Returns PyComplex"

fun op_neg :: "pyval \<Rightarrow> pyval outcome" where
  "op_neg (PyInt n) = Returns (PyInt (- n))"
| "op_neg (PyBool b) = Returns (PyInt (if b then - 1 else 0))"
| "op_neg (PyFloat f) = Returns (PyFloat (float_neg f))"
| "op_neg PyComplex = Returns PyComplex"

subsection \<open>Syntax trees\<close>

text \<open>
  The nodes of Python's \<^verbatim>\<open>ast\<close> module, with the class names of the module (\<open>PowOp\<close> and
  \<open>NotOp\<close> for \<^verbatim>\<open>ast.Pow\<close> and \<^verbatim>\<open>ast.Not\<close>). A constant holds a number, a text, bytes,
  \<^verbatim>\<open>None\<close> or \<^verbatim>\<open>...\<close>. \<open>OtherNode\<close> stands for a node of any class the evaluator does not
  name (\<^verbatim>\<open>List\<close>, \<^verbatim>\<open>Compare\<close>, \<^verbatim>\<open>Attribute\<close>, \<^verbatim>\<open>Lambda\<close> and the rest), given by its class name.
\<close>

datatype operator = Add | Sub | Mult | MatMult | Div | Mod | PowOp | LShift | RShift
  | BitOr | BitXor | BitAnd | FloorDiv

datatype unaryop = Invert | NotOp | UAdd | USub

datatype pyconst = ConstNum pyval | ConstStr pystr | ConstBytes pystr | ConstNone | ConstEllipsis

datatype node =
    Expression node
  | Constant pyconst
  | BinOp node operator node
  | UnaryOp unaryop node
  | Expr node
  | Tuple "node list"
  | Name pystr
  | Call node "node list"
  | OtherNode string

subsection \<open>The evaluator\<close>

text \<open>The two tables of the source, \<^verbatim>\<open>_ALLOWED_BINOP\<close> and \<^verbatim>\<open>_ALLOWED_UNARY\<close>: dictionaries
  from operator classes to functions.\<close>

definition ALLOWED_BINOP :: "operator \<rightharpoonup> (pyval \<Rightarrow> pyval \<Rightarrow> pyval outcome)" where
  "ALLOWED_BINOP = [Add \<mapsto> op_add, Sub \<mapsto> op_sub, Mult \<mapsto> op_mul, Div \<mapsto> op_truediv,
     Mod \<mapsto> op_mod, PowOp \<mapsto> op_pow]"

definition ALLOWED_UNARY :: "unaryop \<rightharpoonup> (pyval \<Rightarrow> pyval outcome)" where
  "ALLOWED_UNARY = [UAdd \<mapsto> op_pos, USub \<mapsto> op_neg]"

text \<open>\<^verbatim>\<open>isinstance(node.value, (int, float))\<close>. A \<^verbatim>\<open>bool\<close> is an \<^verbatim>\<open>int\<close> in Python, so the
  test holds for \<^verbatim>\<open>True\<close> and \<^verbatim>\<open>False\<close>.\<close>

fun isinstance_int_float :: "pyconst \<Rightarrow> bool" where
  "isinstance_int_float (ConstNum v) = (\<not> is_complex v)"
| "isinstance_int_float _ = False"

fun constant_value :: "pyconst \<Rightarrow> pyval" where
  "constant_value (ConstNum v) = v"
| "constant_value _ = PyComplex"

text \<open>
  \<^verbatim>\<open>_eval_ast\<close>, branch by branch. The source's third branch, for \<^verbatim>\<open>ast.Num\<close>, is never
  taken: since Python 3.8 every literal is an \<^verbatim>\<open>ast.Constant\<close>, \<^verbatim>\<open>ast.Num\<close> is an alias
  whose \<^verbatim>\<open>isinstance\<close> test holds for constants only, and those leave by the branch
  before it. A \<^verbatim>\<open>BinOp\<close> or \<^verbatim>\<open>UnaryOp\<close> whose operator is not in the table falls through to the
  last branch with its operands unevaluated. The left operand is evaluated before the
  right one, and an exception of either ends the call.
\<close>

fun eval_ast :: "node \<Rightarrow> pyval outcome" where
  "eval_ast (Expression body) = eval_ast body"
| "eval_ast (Constant c) =
     (if isinstance_int_float c then Returns (constant_value c) else Raises ValueError)"
| "eval_ast (BinOp left oper right) =
     (case ALLOWED_BINOP oper of
        None \<Rightarrow> Raises ValueError
      | Some f \<Rightarrow>
          (case eval_ast left of
             Returns l \<Rightarrow>
               (case eval_ast right of
                  Returns r \<Rightarrow> f l r
                | Raises e \<Rightarrow> Raises e
                | Unmodelled \<Rightarrow> Unmodelled)
           | Raises e \<Rightarrow> Raises e
           | Unmodelled \<Rightarrow> Unmodelled))"
| "eval_ast (UnaryOp oper operand) =
     (case ALLOWED_UNARY oper of
        None \<Rightarrow> Raises ValueError
      | Some f \<Rightarrow>
          (case eval_ast operand of
             Returns v \<Rightarrow> f v
           | Raises e \<Rightarrow> Raises e
           | Unmodelled \<Rightarrow> Unmodelled))"
| "eval_ast (Expr v) = eval_ast v"
| "eval_ast (Tuple elts) = Raises ValueError"
| "eval_ast (Name ident) = Raises ValueError"
| "eval_ast (Call func args) = Raises ValueError"
| "eval_ast (OtherNode cls) = Raises ValueError"

subsection \<open>Python's parser, for the calculator's syntax\<close>

text \<open>
  \<^verbatim>\<open>ast.parse(text, mode='eval')\<close> on a text without whitespace, as far as this theory
  follows it: numbers in decimal notation (with a fraction and an exponent), names,
  \<^verbatim>\<open>True\<close>, \<^verbatim>\<open>False\<close> and \<^verbatim>\<open>None\<close>, plain quoted texts, the operators
  \<^verbatim>\<open>+ - * / // % **\<close>, parentheses, tuples and calls with positional arguments. Whatever
  else Python's grammar knows (other characters and keywords, attribute access, digit
  separators, prefixed or adjacent or escaped texts, starred and keyword arguments) is
  \<open>Unmodelled\<close>. Inside the fragment a text either has a tree or is a \<^verbatim>\<open>SyntaxError\<close>.

  The token names are those of Python's \<^verbatim>\<open>token\<close> module.
\<close>

datatype token = NUMBER pyconst | NAME pystr | STRING pystr
  | PLUS | MINUS | STAR | SLASH | PERCENT | DOUBLESTAR | DOUBLESLASH | LPAR | RPAR | COMMA | EQUAL

definition starts_with :: "(nat \<Rightarrow> bool) \<Rightarrow> pystr \<Rightarrow> bool" where
  "starts_with P s = (case s of [] \<Rightarrow> False | c # cs \<Rightarrow> P c)"

text \<open>A decimal literal \<open>d * 10 ^ ex\<close> as a float: the nearest double, as \<^verbatim>\<open>float(str)\<close>.\<close>

definition scale10 :: "int \<Rightarrow> int \<Rightarrow> pyfloat" where
  "scale10 d ex = (if 0 \<le> ex then round_ratio (d * 10 ^ nat ex) 1 else round_ratio d (10 ^ nat (- ex)))"

definition decimal_float :: "pystr \<Rightarrow> pystr \<Rightarrow> int \<Rightarrow> pyfloat" where
  "decimal_float ip fp ex = scale10 (int (digits_value (ip @ fp))) (ex - int (length fp))"

text \<open>An exponent is \<^verbatim>\<open>e\<close> or \<^verbatim>\<open>E\<close>, an optional sign, and digits.\<close>

definition has_exponent :: "pystr \<Rightarrow> bool" where
  "has_exponent r = (starts_with (\<lambda>c. c = 101 \<or> c = 69) r \<and>
     (starts_with isdigit (tl r) \<or>
      (starts_with (\<lambda>c. c = 43 \<or> c = 45) (tl r) \<and> starts_with isdigit (tl (tl r)))))"

definition exponent_digits :: "pystr \<Rightarrow> pystr" where
  "exponent_digits r = (if starts_with isdigit (tl r) then tl r else tl (tl r))"

definition exponent_value :: "pystr \<Rightarrow> int" where
  "exponent_value r =
     (if starts_with (\<lambda>c. c = 45) (tl r) then - int (digits_value (takeWhile isdigit (exponent_digits r)))
      else int (digits_value (takeWhile isdigit (exponent_digits r))))"

definition after_exponent :: "pystr \<Rightarrow> pystr" where
  "after_exponent r = dropWhile isdigit (exponent_digits r)"

text \<open>A letter, digit or underscore right after a number is a digit separator, a suffix
  (\<^verbatim>\<open>j\<close>), a base prefix (\<^verbatim>\<open>0x\<close>) or a keyword: not modelled. Nor is an integer with a
  leading zero.\<close>

definition finish_number :: "pyconst \<Rightarrow> pystr \<Rightarrow> (token \<times> pystr) outcome" where
  "finish_number c rest = (if starts_with isidentchar rest then Unmodelled else Returns (NUMBER c, rest))"

definition float_token :: "pystr \<Rightarrow> pystr \<Rightarrow> pystr \<Rightarrow> (token \<times> pystr) outcome" where
  "float_token ip fp r =
     (if has_exponent r
      then finish_number (ConstNum (PyFloat (decimal_float ip fp (exponent_value r)))) (after_exponent r)
      else finish_number (ConstNum (PyFloat (decimal_float ip fp 0))) r)"

definition int_token :: "pystr \<Rightarrow> pystr \<Rightarrow> (token \<times> pystr) outcome" where
  "int_token ip r =
     (if 1 < length ip \<and> hd ip = 48 then Unmodelled
      else finish_number (ConstNum (PyInt (int (digits_value ip)))) r)"

definition number_after :: "pystr \<Rightarrow> pystr \<Rightarrow> (token \<times> pystr) outcome" where
  "number_after ip r =
     (if starts_with (\<lambda>c. c = 46) r then float_token ip (takeWhile isdigit (tl r)) (dropWhile isdigit (tl r))
      else if has_exponent r then float_token ip [] r
      else int_token ip r)"

definition number_token :: "pystr \<Rightarrow> (token \<times> pystr) outcome" where
  "number_token s = number_after (takeWhile isdigit s) (dropWhile isdigit s)"

text \<open>Python's keywords other than \<^verbatim>\<open>True\<close>, \<^verbatim>\<open>False\<close> and \<^verbatim>\<open>None\<close>.\<close>

definition other_keywords :: "pystr list" where
  "other_keywords = map ustr [''and'', ''as'', ''assert'', ''async'', ''await'', ''break'', ''class'',
     ''continue'', ''def'', ''del'', ''elif'', ''else'', ''except'', ''finally'', ''for'', ''from'',
     ''global'', ''if'', ''import'', ''in'', ''is'', ''lambda'', ''nonlocal'', ''not'', ''or'', ''pass'',
     ''raise'', ''return'', ''try'', ''while'', ''with'', ''yield'']"

definition is_quote :: "nat \<Rightarrow> bool" where
  "is_quote c = (c = 39 \<or> c = 34)"

definition name_after :: "pystr \<Rightarrow> pystr \<Rightarrow> (token \<times> pystr) outcome" where
  "name_after nm r =
     (if starts_with is_quote r then Unmodelled
      else if nm \<in> set other_keywords then Unmodelled
      else Returns (NAME nm, r))"

definition name_token :: "pystr \<Rightarrow> (token \<times> pystr) outcome" where
  "name_token s = name_after (takeWhile isidentchar s) (dropWhile isidentchar s)"

text \<open>A quoted text of printable ASCII characters without a backslash, closed by the quote
  that opened it. Without the closing quote the text is unterminated: a \<^verbatim>\<open>SyntaxError\<close>.\<close>

definition plain_char :: "nat \<Rightarrow> bool" where
  "plain_char c = (32 \<le> c \<and> c \<le> 126 \<and> c \<noteq> 92)"

definition string_after :: "pystr \<Rightarrow> pystr \<Rightarrow> (token \<times> pystr) outcome" where
  "string_after body r =
     (if \<not> list_all plain_char body then Unmodelled
      else if r = [] then Raises SyntaxError
      else Returns (STRING body, tl r))"

definition string_token :: "nat \<Rightarrow> pystr \<Rightarrow> (token \<times> pystr) outcome" where
  "string_token q cs =
     (if starts_with (\<lambda>c. c = q) cs \<and> starts_with (\<lambda>c. c = q) (tl cs) then Unmodelled
      else string_after (takeWhile (\<lambda>c. c \<noteq> q) cs) (dropWhile (\<lambda>c. c \<noteq> q) cs))"

definition operator_token :: "nat \<Rightarrow> pystr \<Rightarrow> (token \<times> pystr) outcome" where
  "operator_token c cs =
     (if c = 43 then Returns (PLUS, cs)
      else if c = 45 then Returns (MINUS, cs)
      else if c = 42 then (if starts_with (\<lambda>x. x = 42) cs then Returns (DOUBLESTAR, tl cs) else Returns (STAR, cs))
      else if c = 47 then (if starts_with (\<lambda>x. x = 47) cs then Returns (DOUBLESLASH, tl cs) else Returns (SLASH, cs))
      else if c = 37 then Returns (PERCENT, cs)
      else if c = 40 then Returns (LPAR, cs)
      else if c = 41 then Returns (RPAR, cs)
      else if c = 44 then Returns (COMMA, cs)
      else if c = 61 then (if starts_with (\<lambda>x. x = 61) cs then Unmodelled else Returns (EQUAL, cs))
      else Unmodelled)"

definition next_token :: "nat \<Rightarrow> pystr \<Rightarrow> (token \<times> pystr) outcome" where
  "next_token c cs =
     (if isdigit c \<or> (c = 46 \<and> starts_with isdigit cs) then number_token (c # cs)
      else if isidentstart c then name_token (c # cs)
      else if is_quote c then string_token c cs
      else operator_token c cs)"

text \<open>The tokens of a text. Every token takes at least one character, so the length of the
  text is fuel enough.\<close>

fun tokens :: "nat \<Rightarrow> pystr \<Rightarrow> token list outcome" where
  "tokens n [] = Returns []"
| "tokens 0 (c # cs) = Unmodelled"
| "tokens (Suc n) (c # cs) =
     (case next_token c cs of
        Returns (t, rest) \<Rightarrow>
          (case tokens n rest of
             Returns ts \<Rightarrow> Returns (t # ts)
           | Raises e \<Rightarrow> Raises e
           | Unmodelled \<Rightarrow> Unmodelled)
      | Raises e \<Rightarrow> Raises e
      | Unmodelled \<Rightarrow> Unmodelled)"

definition tokenize :: "pystr \<Rightarrow> token list outcome" where
  "tokenize s = tokens (length s) s"

text \<open>
  The grammar, in the shape of Python's own rules:
  \<^verbatim>\<open>sum: sum ('+'|'-') term | term\<close>,
  \<^verbatim>\<open>term: term ('*'|'/'|'//'|'%') factor | factor\<close>,
  \<^verbatim>\<open>factor: ('+'|'-') factor | power\<close>,
  \<^verbatim>\<open>power: primary '**' factor | primary\<close>,
  \<^verbatim>\<open>primary: primary '(' arguments ')' | atom\<close>,
  \<^verbatim>\<open>atom: NUMBER | NAME | STRING | '(' expression ')' | tuple\<close>.
  Sums and terms associate to the left; a power takes a factor as its exponent, so it
  associates to the right and binds tighter than a sign on its left. Each function
  returns the tree and the tokens left over. The parser of the expressions inside
  parentheses is the argument \<open>inner\<close>; \<open>parse_expression\<close> ties the knot. The numeric
  argument is fuel for the recursion; running out of it is \<open>Unmodelled\<close>.
\<close>

fun sum_operator :: "token \<Rightarrow> operator option" where
  "sum_operator PLUS = Some Add"
| "sum_operator MINUS = Some Sub"
| "sum_operator _ = None"

fun term_operator :: "token \<Rightarrow> operator option" where
  "term_operator STAR = Some Mult"
| "term_operator SLASH = Some Div"
| "term_operator DOUBLESLASH = Some FloorDiv"
| "term_operator PERCENT = Some Mod"
| "term_operator _ = None"

fun sign_operator :: "token \<Rightarrow> unaryop option" where
  "sign_operator PLUS = Some UAdd"
| "sign_operator MINUS = Some USub"
| "sign_operator _ = None"

definition name_node :: "pystr \<Rightarrow> node" where
  "name_node nm =
     (if nm = ustr ''True'' then Constant (ConstNum (PyBool True))
      else if nm = ustr ''False'' then Constant (ConstNum (PyBool False))
      else if nm = ustr ''None'' then Constant ConstNone
      else Name nm)"

definition next_is :: "token \<Rightarrow> token list \<Rightarrow> bool" where
  "next_is t ts = (case ts of [] \<Rightarrow> False | x # rest \<Rightarrow> x = t)"

fun is_string :: "token \<Rightarrow> bool" where
  "is_string (STRING s) = True"
| "is_string _ = False"

definition next_is_string :: "token list \<Rightarrow> bool" where
  "next_is_string ts = (case ts of [] \<Rightarrow> False | x # rest \<Rightarrow> is_string x)"

text \<open>What parentheses enclose: \<^verbatim>\<open>()\<close>, one expression, or expressions with commas (a
  tuple, or the arguments of a call).\<close>

definition group_node :: "node list \<Rightarrow> bool \<Rightarrow> node" where
  "group_node es comma = (if comma \<or> es = [] then Tuple es else hd es)"

text \<open>The elements between parentheses, after the opening one, up to the closing one:
  the expressions and whether a comma was seen. A starred element, and \<^verbatim>\<open>=\<close> after an
  argument of a call (a keyword argument), are not modelled.\<close>

fun parse_elements :: "(token list \<Rightarrow> (node \<times> token list) outcome) \<Rightarrow> nat \<Rightarrow> bool \<Rightarrow> token list
    \<Rightarrow> ((node list \<times> bool) \<times> token list) outcome" where
  "parse_elements inner 0 call ts = Unmodelled"
| "parse_elements inner (Suc n) call ts =
     (if ts = [] then Raises SyntaxError
      else if next_is RPAR ts then Returns (([], False), tl ts)
      else if next_is STAR ts \<or> next_is DOUBLESTAR ts then Unmodelled
      else (case inner ts of
              Returns (e, rest) \<Rightarrow>
                (if next_is RPAR rest then Returns (([e], False), tl rest)
                 else if next_is COMMA rest
                 then (case parse_elements inner n call (tl rest) of
                         Returns (found, rest') \<Rightarrow> Returns ((e # fst found, True), rest')
                       | Raises err \<Rightarrow> Raises err
                       | Unmodelled \<Rightarrow> Unmodelled)
                 else if next_is EQUAL rest \<and> call then Unmodelled
                 else Raises SyntaxError)
            | Raises err \<Rightarrow> Raises err
            | Unmodelled \<Rightarrow> Unmodelled))"

fun parse_atom :: "(token list \<Rightarrow> (node \<times> token list) outcome) \<Rightarrow> nat \<Rightarrow> token list
    \<Rightarrow> (node \<times> token list) outcome" where
  "parse_atom inner n [] = Raises SyntaxError"
| "parse_atom inner n (NUMBER c # rest) = Returns (Constant c, rest)"
| "parse_atom inner n (NAME nm # rest) = Returns (name_node nm, rest)"
| "parse_atom inner n (STRING s # rest) =
     (if next_is_string rest then Unmodelled else Returns (Constant (ConstStr s), rest))"
| "parse_atom inner n (LPAR # rest) =
     (case parse_elements inner n False rest of
        Returns (found, rest') \<Rightarrow> Returns (group_node (fst found) (snd found), rest')
      | Raises err \<Rightarrow> Raises err
      | Unmodelled \<Rightarrow> Unmodelled)"
| "parse_atom inner n (t # rest) = Raises SyntaxError"

fun parse_trailers :: "(token list \<Rightarrow> (node \<times> token list) outcome) \<Rightarrow> nat \<Rightarrow> node \<Rightarrow> token list
    \<Rightarrow> (node \<times> token list) outcome" where
  "parse_trailers inner 0 f ts = Unmodelled"
| "parse_trailers inner (Suc n) f ts =
     (if next_is LPAR ts
      then (case parse_elements inner n True (tl ts) of
              Returns (found, rest) \<Rightarrow> parse_trailers inner n (Call f (fst found)) rest
            | Raises err \<Rightarrow> Raises err
            | Unmodelled \<Rightarrow> Unmodelled)
      else Returns (f, ts))"

text \<open>\<^verbatim>\<open>factor\<close> and \<^verbatim>\<open>power\<close> in one function: signs, then a primary, then an exponent.\<close>

fun parse_factor :: "(token list \<Rightarrow> (node \<times> token list) outcome) \<Rightarrow> nat \<Rightarrow> token list
    \<Rightarrow> (node \<times> token list) outcome" where
  "parse_factor inner 0 ts = Unmodelled"
| "parse_factor inner (Suc n) [] = Raises SyntaxError"
| "parse_factor inner (Suc n) (t # rest) =
     (case sign_operator t of
        Some oper \<Rightarrow>
          (case parse_factor inner n rest of
             Returns (x, rest') \<Rightarrow> Returns (UnaryOp oper x, rest')
           | Raises err \<Rightarrow> Raises err
           | Unmodelled \<Rightarrow> Unmodelled)
      | None \<Rightarrow>
          (case parse_atom inner n (t # rest) of
             Returns (a, rest1) \<Rightarrow>
               (case parse_trailers inner n a rest1 of
                  Returns (p, rest2) \<Rightarrow>
                    (if next_is DOUBLESTAR rest2
                     then (case parse_factor inner n (tl rest2) of
                             Returns (x, rest3) \<Rightarrow> Returns (BinOp p PowOp x, rest3)
                           | Raises err \<Rightarrow> Raises err
                           | Unmodelled \<Rightarrow> Unmodelled)
                     else Returns (p, rest2))
                | Raises err \<Rightarrow> Raises err
                | Unmodelled \<Rightarrow> Unmodelled)
           | Raises err \<Rightarrow> Raises err
           | Unmodelled \<Rightarrow> Unmodelled))"

fun parse_term_rest :: "(token list \<Rightarrow> (node \<times> token list) outcome) \<Rightarrow> nat \<Rightarrow> node \<Rightarrow> token list
    \<Rightarrow> (node \<times> token list) outcome" where
  "parse_term_rest inner 0 l ts = Unmodelled"
| "parse_term_rest inner (Suc n) l [] = Returns (l, [])"
| "parse_term_rest inner (Suc n) l (t # rest) =
     (case term_operator t of
        None \<Rightarrow> Returns (l, t # rest)
      | Some oper \<Rightarrow>
          (case parse_factor inner n rest of
             Returns (r, rest') \<Rightarrow> parse_term_rest inner n (BinOp l oper r) rest'
           | Raises err \<Rightarrow> Raises err
           | Unmodelled \<Rightarrow> Unmodelled))"

definition parse_term :: "(token list \<Rightarrow> (node \<times> token list) outcome) \<Rightarrow> nat \<Rightarrow> token list
    \<Rightarrow> (node \<times> token list) outcome" where
  "parse_term inner n ts =
     (case parse_factor inner n ts of
        Returns (l, rest) \<Rightarrow> parse_term_rest inner n l rest
      | Raises err \<Rightarrow> Raises err
      | Unmodelled \<Rightarrow> Unmodelled)"

fun parse_sum_rest :: "(token list \<Rightarrow> (node \<times> token list) outcome) \<Rightarrow> nat \<Rightarrow> node \<Rightarrow> token list
    \<Rightarrow> (node \<times> token list) outcome" where
  "parse_sum_rest inner 0 l ts = Unmodelled"
| "parse_sum_rest inner (Suc n) l [] = Returns (l, [])"
| "parse_sum_rest inner (Suc n) l (t # rest) =
     (case sum_operator t of
        None \<Rightarrow> Returns (l, t # rest)
      | Some oper \<Rightarrow>
          (case parse_term inner n rest of
             Returns (r, rest') \<Rightarrow> parse_sum_rest inner n (BinOp l oper r) rest'
           | Raises err \<Rightarrow> Raises err
           | Unmodelled \<Rightarrow> Unmodelled))"

definition parse_sum :: "(token list \<Rightarrow> (node \<times> token list) outcome) \<Rightarrow> nat \<Rightarrow> token list
    \<Rightarrow> (node \<times> token list) outcome" where
  "parse_sum inner n ts =
     (case parse_term inner n ts of
        Returns (l, rest) \<Rightarrow> parse_sum_rest inner n l rest
      | Raises err \<Rightarrow> Raises err
      | Unmodelled \<Rightarrow> Unmodelled)"

primrec parse_expression :: "nat \<Rightarrow> token list \<Rightarrow> (node \<times> token list) outcome" where
  "parse_expression 0 ts = Unmodelled"
| "parse_expression (Suc n) ts = parse_sum (parse_expression n) (Suc n) ts"

text \<open>
  \<^verbatim>\<open>eval: expressions ENDMARKER\<close>, where
  \<^verbatim>\<open>expressions: expression (',' expression)* [',']\<close> is a tuple as soon as it has a comma.
  \<open>parse_more\<close> reads what follows a comma at the top level.
\<close>

fun parse_more :: "nat \<Rightarrow> nat \<Rightarrow> token list \<Rightarrow> node list outcome" where
  "parse_more fuel 0 ts = Unmodelled"
| "parse_more fuel (Suc n) ts =
     (if ts = [] then Returns []
      else if next_is STAR ts \<or> next_is DOUBLESTAR ts then Unmodelled
      else (case parse_expression fuel ts of
              Returns (e, rest) \<Rightarrow>
                (if rest = [] then Returns [e]
                 else if next_is COMMA rest
                 then (case parse_more fuel n (tl rest) of
                         Returns es \<Rightarrow> Returns (e # es)
                       | Raises err \<Rightarrow> Raises err
                       | Unmodelled \<Rightarrow> Unmodelled)
                 else Raises SyntaxError)
            | Raises err \<Rightarrow> Raises err
            | Unmodelled \<Rightarrow> Unmodelled))"

definition parse_eval :: "nat \<Rightarrow> token list \<Rightarrow> node outcome" where
  "parse_eval fuel ts =
     (if next_is STAR ts \<or> next_is DOUBLESTAR ts then Unmodelled
      else (case parse_expression fuel ts of
              Returns (e, rest) \<Rightarrow>
                (if rest = [] then Returns e
                 else if next_is COMMA rest
                 then (case parse_more fuel fuel (tl rest) of
                         Returns es \<Rightarrow> Returns (Tuple (e # es))
                       | Raises err \<Rightarrow> Raises err
                       | Unmodelled \<Rightarrow> Unmodelled)
                 else Raises SyntaxError)
            | Raises err \<Rightarrow> Raises err
            | Unmodelled \<Rightarrow> Unmodelled))"

text \<open>\<^verbatim>\<open>ast.parse(source, mode='eval')\<close>: the tree is wrapped in an \<^verbatim>\<open>Expression\<close> node.\<close>

definition parse_tokens :: "token list \<Rightarrow> node outcome" where
  "parse_tokens ts =
     (case parse_eval (Suc (length ts)) ts of
        Returns body \<Rightarrow> Returns (Expression body)
      | Raises err \<Rightarrow> Raises err
      | Unmodelled \<Rightarrow> Unmodelled)"

definition ast_parse :: "pystr \<Rightarrow> node outcome" where
  "ast_parse source =
     (case tokenize source of
        Returns ts \<Rightarrow> parse_tokens ts
      | Raises err \<Rightarrow> Raises err
      | Unmodelled \<Rightarrow> Unmodelled)"

subsection \<open>The evaluator's entry point and the compute action\<close>

text \<open>
  The first lines of \<^verbatim>\<open>safe_eval\<close>: the multiplication sign U+00D7 becomes \<^verbatim>\<open>*\<close>, the
  division sign U+00F7 becomes \<^verbatim>\<open>/\<close>, the minus sign U+2212 becomes \<^verbatim>\<open>-\<close>, then the caret
  becomes \<^verbatim>\<open>**\<close>, then all whitespace goes.
\<close>

definition sanitize :: "pystr \<Rightarrow> pystr" where
  "sanitize expr =
     remove_whitespace (str_replace 94 (ustr ''**'')
       (str_replace 8722 (ustr ''-'') (str_replace 247 (ustr ''/'') (str_replace 215 (ustr ''*'') expr))))"

text \<open>\<^verbatim>\<open>safe_eval\<close>: an empty text is 0; any other is parsed and evaluated, and an exception
  of the parser or of the evaluation leaves the function.\<close>

definition safe_eval :: "pystr \<Rightarrow> pyval outcome" where
  "safe_eval expr =
     (if sanitize expr = [] then Returns (PyInt 0)
      else (case ast_parse (sanitize expr) of
              Returns tree \<Rightarrow> eval_ast tree
            | Raises err \<Rightarrow> Raises err
            | Unmodelled \<Rightarrow> Unmodelled))"

text \<open>
  \<^verbatim>\<open>float.is_integer\<close> and \<^verbatim>\<open>int(x)\<close> for a float, and \<^verbatim>\<open>str\<close> of a result. The text of a
  finite float is the shortest decimal that reads back as the same float, and that of a
  complex number shows its components: neither is computed here.
\<close>

fun is_integer :: "pyfloat \<Rightarrow> bool" where
  "is_integer (Finite m e) = (0 \<le> e \<or> m mod 2 ^ nat (- e) = 0)"
| "is_integer _ = False"

fun float_to_int :: "pyfloat \<Rightarrow> int" where
  "float_to_int (Finite m e) = (if 0 \<le> e then m * 2 ^ nat e else m div 2 ^ nat (- e))"
| "float_to_int _ = 0"

fun py_str :: "pyval \<Rightarrow> pystr outcome" where
  "py_str (PyInt n) = Returns (str_int n)"
| "py_str (PyBool b) = Returns (if b then ustr ''True'' else ustr ''False'')"
| "py_str (PyFloat (Finite m e)) = Unmodelled"
| "py_str (PyFloat PosInf) = Returns (ustr ''inf'')"
| "py_str (PyFloat NegInf) = Returns (ustr ''-inf'')"
| "py_str (PyFloat NaN) = Returns (ustr ''nan'')"
| "py_str PyComplex = Unmodelled"

text \<open>The two lines of \<^verbatim>\<open>_calculate\<close> that turn a float without a fraction into an
  \<^verbatim>\<open>int\<close> before it is shown.\<close>

fun clean_result :: "pyval \<Rightarrow> pyval" where
  "clean_result (PyFloat f) = (if is_integer f then PyInt (float_to_int f) else PyFloat f)"
| "clean_result v = v"

text \<open>
  The calculator's state, as far as the compute action goes, is the text of its display
  (\<^verbatim>\<open>display_var\<close>, which the entry widget shows and edits). \<^verbatim>\<open>_calculate\<close> reads it,
  evaluates it and writes the result back; \<^verbatim>\<open>except Exception\<close> catches every error of
  the evaluation and of the formatting and writes Error instead.
\<close>

record calculator =
  display_var :: pystr

definition calculate :: "calculator \<Rightarrow> calculator outcome" where
  "calculate self =
     (case safe_eval (display_var self) of
        Returns result \<Rightarrow>
          (case py_str (clean_result result) of
             Returns text \<Rightarrow> Returns (self\<lparr>display_var := text\<rparr>)
           | Raises err \<Rightarrow> Returns (self\<lparr>display_var := ustr ''Error''\<rparr>)
           | Unmodelled \<Rightarrow> Unmodelled)
      | Raises err \<Rightarrow> Returns (self\<lparr>display_var := ustr ''Error''\<rparr>)
      | Unmodelled \<Rightarrow> Unmodelled)"

subsection \<open>The notions the properties are stated with\<close>

fun is_value :: "'a outcome \<Rightarrow> bool" where
  "is_value (Returns v) = True"
| "is_value _ = False"

text \<open>
  The closed grammar of the specification: number literals, unary signs and the six
  binary operators, under the wrappers \<^verbatim>\<open>Expression\<close> and \<^verbatim>\<open>Expr\<close>.
\<close>

fun in_grammar :: "node \<Rightarrow> bool" where
  "in_grammar (Expression body) = in_grammar body"
| "in_grammar (Constant c) = isinstance_int_float c"
| "in_grammar (BinOp left oper right) = (ALLOWED_BINOP oper \<noteq> None \<and> in_grammar left \<and> in_grammar right)"
| "in_grammar (UnaryOp oper operand) = (ALLOWED_UNARY oper \<noteq> None \<and> in_grammar operand)"
| "in_grammar (Expr v) = in_grammar v"
| "in_grammar _ = False"

text \<open>All the nodes of a tree, the arguments of calls and the elements of tuples included.\<close>

fun subnodes :: "node \<Rightarrow> node list" where
  "subnodes (Expression body) = Expression body # subnodes body"
| "subnodes (Constant c) = [Constant c]"
| "subnodes (BinOp left oper right) = BinOp left oper right # subnodes left @ subnodes right"
| "subnodes (UnaryOp oper operand) = UnaryOp oper operand # subnodes operand"
| "subnodes (Expr v) = Expr v # subnodes v"
| "subnodes (Tuple elts) = Tuple elts # concat (map subnodes elts)"
| "subnodes (Name ident) = [Name ident]"
| "subnodes (Call func args) = Call func args # subnodes func @ concat (map subnodes args)"
| "subnodes (OtherNode cls) = [OtherNode cls]"

text \<open>A construct outside the grammar: a name, a call, a tuple, a node of any other class,
  or an operator that is not in the evaluator's tables.\<close>

fun outside_construct :: "node \<Rightarrow> bool" where
  "outside_construct (Tuple elts) = True"
| "outside_construct (Name ident) = True"
| "outside_construct (Call func args) = True"
| "outside_construct (OtherNode cls) = True"
| "outside_construct (BinOp left oper right) = (ALLOWED_BINOP oper = None)"
| "outside_construct (UnaryOp oper operand) = (ALLOWED_UNARY oper = None)"
| "outside_construct _ = False"

text \<open>
  A literal that is not a number. \<open>non_numeric_literal\<close> is the notion of the
  specification, for which a boolean is not a number; \<open>unsupported_literal\<close> is the
  notion of the code, \<^verbatim>\<open>isinstance(value, (int, float))\<close>, for which it is. The collection
  literals are the tuple and the displays \<^verbatim>\<open>List\<close>, \<^verbatim>\<open>Set\<close> and \<^verbatim>\<open>Dict\<close>.
\<close>

definition collection_classes :: "string list" where
  "collection_classes = [''List'', ''Set'', ''Dict'']"

fun numeric_constant :: "pyconst \<Rightarrow> bool" where
  "numeric_constant (ConstNum (PyInt n)) = True"
| "numeric_constant (ConstNum (PyFloat f)) = True"
| "numeric_constant _ = False"

fun non_numeric_literal :: "node \<Rightarrow> bool" where
  "non_numeric_literal (Constant c) = (\<not> numeric_constant c)"
| "non_numeric_literal (Tuple elts) = True"
| "non_numeric_literal (OtherNode cls) = (cls \<in> set collection_classes)"
| "non_numeric_literal _ = False"

fun unsupported_literal :: "node \<Rightarrow> bool" where
  "unsupported_literal (Constant c) = (\<not> isinstance_int_float c)"
| "unsupported_literal (Tuple elts) = True"
| "unsupported_literal (OtherNode cls) = (cls \<in> set collection_classes)"
| "unsupported_literal _ = False"

text \<open>
  \<open>rejects t\<close>: the walk of \<^verbatim>\<open>_eval_ast\<close> over \<open>t\<close> arrives at a node it has no branch for,
  or at a constant it does not support, before anything else goes wrong: the operands to
  the left of that node evaluate to values.
\<close>

fun rejects :: "node \<Rightarrow> bool" where
  "rejects (Expression body) = rejects body"
| "rejects (Constant c) = (\<not> isinstance_int_float c)"
| "rejects (BinOp left oper right) =
     (ALLOWED_BINOP oper = None \<or> rejects left \<or> (is_value (eval_ast left) \<and> rejects right))"
| "rejects (UnaryOp oper operand) = (ALLOWED_UNARY oper = None \<or> rejects operand)"
| "rejects (Expr v) = rejects v"
| "rejects _ = True"

text \<open>
  The mathematically correct value of an expression over integer literals, where it is an
  integer: sums, differences, products, powers with an exponent that is not negative, and
  remainders by a divisor that is not zero, with the sign of the divisor.
\<close>

fun exact_binop :: "operator \<Rightarrow> int \<Rightarrow> int \<Rightarrow> int option" where
  "exact_binop Add a b = Some (a + b)"
| "exact_binop Sub a b = Some (a - b)"
| "exact_binop Mult a b = Some (a * b)"
| "exact_binop Mod a b = (if b = 0 then None else Some (a mod b))"
| "exact_binop PowOp a b = (if b < 0 then None else Some (a ^ nat b))"
| "exact_binop _ a b = None"

fun exact_unary :: "unaryop \<Rightarrow> int \<Rightarrow> int option" where
  "exact_unary UAdd a = Some a"
| "exact_unary USub a = Some (- a)"
| "exact_unary _ a = None"

fun exact_value :: "node \<Rightarrow> int option" where
  "exact_value (Expression body) = exact_value body"
| "exact_value (Constant c) = (case c of ConstNum (PyInt n) \<Rightarrow> Some n | _ \<Rightarrow> None)"
| "exact_value (BinOp left oper right) =
     (case exact_value left of
        None \<Rightarrow> None
      | Some a \<Rightarrow> (case exact_value right of None \<Rightarrow> None | Some b \<Rightarrow> exact_binop oper a b))"
| "exact_value (UnaryOp oper operand) =
     (case exact_value operand of None \<Rightarrow> None | Some a \<Rightarrow> exact_unary oper a)"
| "exact_value (Expr v) = exact_value v"
| "exact_value _ = None"

text \<open>The integer a result stands for, when it is a whole number: an \<^verbatim>\<open>int\<close>, a \<^verbatim>\<open>bool\<close>
  (0 or 1), or a float without a fraction.\<close>

fun integer_value :: "pyval \<Rightarrow> int option" where
  "integer_value (PyInt n) = Some n"
| "integer_value (PyBool b) = Some (if b then 1 else 0)"
| "integer_value (PyFloat f) = (if is_integer f then Some (float_to_int f) else None)"
| "integer_value PyComplex = None"

text \<open>A negative base and an exponent with a fraction, as \<^verbatim>\<open>float_pow\<close> tests them.\<close>

fun is_negative :: "pyval \<Rightarrow> bool" where
  "is_negative (PyInt n) = (n < 0)"
| "is_negative (PyBool b) = False"
| "is_negative (PyFloat (Finite m e)) = (m < 0)"
| "is_negative (PyFloat f) = False"
| "is_negative PyComplex = False"

fun is_fractional :: "pyval \<Rightarrow> bool" where
  "is_fractional (PyFloat (Finite m e)) = (m \<noteq> 0 \<and> e < 0)"
| "is_fractional _ = False"

section \<open>Properties\<close>

subsection \<open>Unfolding the model on a concrete text\<close>

text \<open>The definitions that evaluate the model on an explicit text, by rewriting.\<close>

lemmas float_defs = round_ratio_def round_place_def pack_float_def make_float_def round_at_def round_half_even_def round_half_even_qr_def
  floor_log2_def floor_log2_from_def bit_length.simps lowest_terms.simps round_dyadic_def
lemmas op_defs = op_add_def op_sub_def op_mul_def op_truediv_def op_mod_def op_pow_def arith_def float_operands_def
  int_truediv_def int_mod_def int_pow_def int_to_float_def add_dyadic_def pow_integer_def exact_ratio_def is_exact_def
  pow_in_range_def dyadic_def pow2_def complex_arith_def complex_div_def complex_mod_def complex_pow_def complex_operands_def real_operand_def
  ALLOWED_BINOP_def ALLOWED_UNARY_def
lemmas lex_defs = tokenize_def next_token_def operator_token_def string_token_def string_after_def plain_char_def
  name_token_def name_after_def is_quote_def other_keywords_def number_token_def number_after_def int_token_def
  float_token_def finish_number_def after_exponent_def exponent_value_def exponent_digits_def has_exponent_def
  decimal_float_def scale10_def starts_with_def isdigit_def isidentstart_def isidentchar_def digits_value_def ustr_def
lemmas parse_defs = ast_parse_def parse_tokens_def parse_eval_def parse_sum_def parse_term_def next_is_def next_is_string_def
  group_node_def name_node_def
lemmas top_defs = safe_eval_def sanitize_def str_replace_def remove_whitespace_def isspace_def calculate_def str_int_def str_nat.simps
lemmas all_defs = top_defs parse_defs lex_defs op_defs float_defs

subsection \<open>Normalisation of the input\<close>

lemma str_replace_other: "\<forall>c\<in>set s. c \<noteq> old \<Longrightarrow> str_replace old new s = s"
  by (induction s) (simp_all add: str_replace_def)

lemma sanitize_unchanged:
  assumes "\<forall>c\<in>set s. c \<noteq> 215 \<and> c \<noteq> 247 \<and> c \<noteq> 8722 \<and> c \<noteq> 94 \<and> \<not> isspace c"
  shows "sanitize s = s"
proof -
  have "str_replace 215 (ustr ''*'') s = s" using assms by (simp add: str_replace_other)
  moreover have "str_replace 247 (ustr ''/'') s = s" using assms by (simp add: str_replace_other)
  moreover have "str_replace 8722 (ustr ''-'') s = s" using assms by (simp add: str_replace_other)
  moreover have "str_replace 94 (ustr ''**'') s = s" using assms by (simp add: str_replace_other)
  moreover have "remove_whitespace s = s" using assms by (simp add: remove_whitespace_def)
  ultimately show ?thesis by (simp add: sanitize_def)
qed

lemma isspace_not_symbol: "isspace c \<Longrightarrow> c \<noteq> 215 \<and> c \<noteq> 247 \<and> c \<noteq> 8722 \<and> c \<noteq> 94"
  by (auto simp: isspace_def)

lemma sanitize_whitespace:
  assumes "\<forall>c\<in>set s. isspace c"
  shows "sanitize s = []"
proof -
  have "str_replace 215 (ustr ''*'') s = s" using assms by (simp add: str_replace_other isspace_not_symbol)
  moreover have "str_replace 247 (ustr ''/'') s = s" using assms by (simp add: str_replace_other isspace_not_symbol)
  moreover have "str_replace 8722 (ustr ''-'') s = s" using assms by (simp add: str_replace_other isspace_not_symbol)
  moreover have "str_replace 94 (ustr ''**'') s = s" using assms by (simp add: str_replace_other isspace_not_symbol)
  moreover have "remove_whitespace s = []" using assms by (simp add: remove_whitespace_def)
  ultimately show ?thesis by (simp add: sanitize_def)
qed

text \<open>
  Claim C4. A text that is empty or holds nothing but whitespace evaluates to the integer 0;
  it is not an error. (The display symbols turn into operators, so only whitespace is
  normalised away.)
\<close>

theorem empty_input_is_zero: "\<forall>c\<in>set s. isspace c \<Longrightarrow> safe_eval s = Returns (PyInt 0)"
  by (simp add: safe_eval_def sanitize_whitespace)

theorem empty_input_is_zero_witness:
  "safe_eval [] = Returns (PyInt 0) \<and> safe_eval [32, 9, 160, 10] = Returns (PyInt 0)"
  using empty_input_is_zero [of "[]"] empty_input_is_zero [of "[32, 9, 160, 10]"]
  by (simp add: isspace_def)


end
